theory Spec2Isabelle
  imports Complex_Main "HOL-Library.AList" "HOL-Library.Sublist" "HOL-Library.Product_Lexorder"
begin

section \<open>Strings\<close>

text \<open>
  Strings are ASCII character lists. \<open>toUpperCase\<close> maps the letters a..z to A..Z and
  leaves every other character alone (a lower-case letter has bit 5 set, and clearing it
  subtracts 32); \<open>trim\<close> removes leading and trailing white space
  (tab, line feed, vertical tab, form feed, carriage return, space).
\<close>

definition upperChar :: "char \<Rightarrow> char" where
  "upperChar c =
     (if 97 \<le> (of_char c :: nat) \<and> (of_char c :: nat) \<le> 122
      then (case c of Char b0 b1 b2 b3 b4 b5 b6 b7 \<Rightarrow> Char b0 b1 b2 b3 b4 False b6 b7)
      else c)"

definition toUpperCase :: "string \<Rightarrow> string" where
  "toUpperCase s = map upperChar s"

definition isSpace :: "char \<Rightarrow> bool" where
  "isSpace c = ((of_char c :: nat) \<in> {9, 10, 11, 12, 13, 32})"

definition trim :: "string \<Rightarrow> string" where
  "trim s = rev (dropWhile isSpace (rev (dropWhile isSpace s)))"

text \<open>\<open>s.includes(q)\<close>: \<open>q\<close> occurs in \<open>s\<close> as a contiguous run.\<close>

primrec str_includes :: "string \<Rightarrow> string \<Rightarrow> bool" where
  "str_includes [] q = (q = [])"
| "str_includes (c # cs) q = (prefix q (c # cs) \<or> str_includes cs q)"


section \<open>Data model (src/types/index.ts)\<close>

record SCRILocation =
  siteName1 :: string
  displayName :: string
  phoneNumber1 :: string
  city :: string
  state :: string
  latitude :: string
  longitude :: string

record SCRITrial =
  studyId :: string
  studyName :: string
  protocolTitle :: string
  nct :: string
  siteList :: "SCRILocation list"
  officeList :: "SCRILocation list"
  programTypeNames :: "string list"
  phaseNames :: "string list"

record SCRISearchData =
  currentPage :: int
  itemsPerPage :: int
  totalItemCount :: int
  totalPageCount :: int
  searchResultsData :: "SCRITrial list"

text \<open>
  A distance is what \<open>calculateDistance\<close> returns: \<open>Math.round\<close> of a number, hence an
  integer, or NaN. An optional field that is absent (\<open>undefined\<close>) is \<open>None\<close>. The
  distance of a location summary may be NaN; the distance of a search result never is,
  since it is only assigned after the comparison \<open>d < minDist\<close>, which NaN fails.
\<close>

datatype number = Number int | NaN

record LocationSummary =
  name_ls :: string
  city_ls :: string
  state_ls :: string
  phone_ls :: "string option"
  distance_ls :: "number option"

record TrialSummary =
  id_ts :: string
  name_ts :: string
  title_ts :: string
  nctId_ts :: string
  phases_ts :: "string list"
  cancerTypes_ts :: "string list"
  locationCount :: nat
  closestLocation :: "LocationSummary option"
  allLocations :: "LocationSummary list"
  scriUrl_ts :: string
  ctGovUrl :: string

record TrialSearchResult =
  id_sr :: string
  name_sr :: string
  nctId_sr :: string
  phases_sr :: "string list"
  closestCity :: "string option"
  closestState :: "string option"
  distance_sr :: "int option"
  scriUrl_sr :: string

record PatientProfile =
  zipCode_profile :: "string option"
  cancerType_profile :: "string option"

record coords =
  lat :: real
  lon :: real

section \<open>Errors\<close>

datatype error = Error string | TypeError string | SyntaxError string


section \<open>The trial cache (TrialAgent.trialCache)\<close>

text \<open>
  A JavaScript \<open>Map\<close> iterates in insertion order, and \<open>set\<close> on a key that is already
  there replaces the value in place: an association list with \<open>AList.update\<close>.
\<close>

record CacheEntry =
  trial :: SCRITrial
  userZipCode :: "string option"

type_synonym trialCache = "(string \<times> CacheEntry) list"

fun cacheTrials :: "trialCache \<Rightarrow> SCRITrial list \<Rightarrow> string option \<Rightarrow> trialCache" where
  "cacheTrials c [] z = c"
| "cacheTrials c (t # ts) z =
     (let c1 = AList.update (studyId t) \<lparr>trial = t, userZipCode = z\<rparr> c;
          c2 = (if studyName t \<noteq> []
                then AList.update (toUpperCase (studyName t)) \<lparr>trial = t, userZipCode = z\<rparr> c1
                else c1)
      in cacheTrials c2 ts z)"

text \<open>The keys under which \<open>cacheTrials\<close> stores a record.\<close>

definition cacheKeys :: "SCRITrial \<Rightarrow> string list" where
  "cacheKeys t = studyId t # (if studyName t \<noteq> [] then [toUpperCase (studyName t)] else [])"

definition partialMatch :: "string \<Rightarrow> string \<times> CacheEntry \<Rightarrow> bool" where
  "partialMatch q kv =
     (str_includes (fst kv) (toUpperCase q) \<or> str_includes (toUpperCase q) (fst kv))"

definition getCachedTrial :: "trialCache \<Rightarrow> string \<Rightarrow> CacheEntry option" where
  "getCachedTrial c q =
     (case map_of c q of
        Some cached \<Rightarrow> Some cached
      | None \<Rightarrow>
          (case map_of c (toUpperCase q) of
             Some cached \<Rightarrow> Some cached
           | None \<Rightarrow> map_option snd (List.find (partialMatch q) c)))"

section \<open>External collaborators\<close>

text \<open>
  The results of a \<open>fetch\<close> as the registry client reads them: the promise rejects, or
  there is a response with its \<open>ok\<close> flag and \<open>status\<close>; the third component is what the
  client makes of the body, \<open>None\<close> when reading or converting it throws or yields nothing.
\<close>

datatype 'a fetch_result = FetchRejects error | FetchResponse bool nat "'a option"

record Intervention =
  type_iv :: string
  name_iv :: string
  description_iv :: "string option"

record CTGovStudy =
  nctId_st :: string
  briefTitle_st :: string
  eligibilityCriteria :: "string option"
  minimumAge :: "string option"
  maximumAge :: "string option"
  sex :: "string option"
  interventions_st :: "Intervention list option"

record CTGovLocation =
  facility :: string
  city_cl :: string
  state_cl :: string
  country :: string

record CTGovSearchResult =
  nctId_cr :: string
  briefTitle_cr :: string
  phase_cr :: "string option"
  status_cr :: string
  conditions_cr :: "string list"
  interventions_cr :: "string list"
  locations_cr :: "CTGovLocation list"

text \<open>The query parameters of a registry search; \<open>filter_geo\<close> is (location, miles).\<close>

record CTGovQuery =
  query_cond :: "string option"
  pageSize :: nat
  filter_geo :: "(string \<times> real) option"

text \<open>The arguments of a tool call, with the fields the tool schemas declare.\<close>

record ToolArgs =
  cancerType_arg :: "string option"
  zipCode_arg :: "string option"
  studyId_arg :: "string option"
  nctId_arg :: "string option"
  condition_arg :: "string option"
  location_arg :: "string option"
  distance_arg :: "real option"

section \<open>The model endpoint (OpenAI Responses API)\<close>

record ResponseFunctionToolCall =
  call_id :: string
  name_fc :: string
  arguments :: string

datatype ResponseContent = OutputText string | Refusal string

datatype ResponseOutputItem =
    FunctionCall ResponseFunctionToolCall
  | Message "ResponseContent list option"
  | OtherItem

record Response =
  id_resp :: string
  status :: string
  output_resp :: "ResponseOutputItem list option"

section \<open>Tool results\<close>

datatype ToolResult =
    SearchTrialsResult "string option" string int nat "TrialSearchResult list"
  | StudyDetailsFound string TrialSummary
  | StudyDetailsNotFound string
  | ErrorPayload string
  | TrialEligibility "string option" "string option" string
  | TrialTreatmentInfo "string option" "string option" string
  | CancerTypeList "string list"
  | SearchAllTrialsResult "string option" "string option" real nat "CTGovSearchResult list"

type_synonym FunctionCallOutput = "string \<times> ToolResult"

datatype ResponseInput =
    UserText string
  | UserTurn string
  | ToolOutputs "FunctionCallOutput list"

record Request =
  input_req :: ResponseInput
  previous_response_id :: "string option"

text \<open>
  The lines that the agent logs. A line has a level and a message; the messages are
  named after the places that log them and carry what the source puts into the line
  (the elapsed time of the \<open>Completed\<close> line apart).
\<close>

datatype level = LogLevel | WarnLevel | ErrorLevel

datatype logMessage =
    CachedTrials nat nat
  | FoundInCache string
  | FetchingFromApi string
  | BackstopSearch "string option" "string option" real
  | Restored string
  | ChatCalled "string option"
  | InitialResponse string string
  | ProcessingCalls nat
  | CallLine string string
  | Executing string
  | Completed string
  | ResultPreview ToolResult
  | ToolError string error
  | AfterToolProcessing string string
  | FinalResponseId string

text \<open>
  Everything outside the agent is a parameter. A service that throws returns \<open>Inl\<close>.
  The model endpoint is given the number of the call within the turn as well as the
  request, so it may answer the same request differently each time. \<open>JSON_parse\<close>
  returns \<open>Inl\<close> for a syntax error and \<open>Inr None\<close> for the JSON value \<open>null\<close>;
  \<open>parseFloat\<close> returns \<open>None\<close> for NaN. \<open>onLog\<close> is the logging callback of the
  constructor, absent or a function that returns \<open>Some\<close> error where it throws; it is
  given the number of the log call within the turn as well as the line.
\<close>

record env =
  responses_create :: "nat \<Rightarrow> Request \<Rightarrow> error + Response"
  searchTrials :: "string \<Rightarrow> nat \<Rightarrow> error + SCRISearchData"
  getTrialDetails :: "string \<Rightarrow> error + SCRITrial"
  getCancerTypeList :: "error + string list"
  fetchStudy :: "string \<Rightarrow> CTGovStudy fetch_result"
  fetchSearch :: "CTGovQuery \<Rightarrow> CTGovSearchResult list fetch_result"
  ZIP_COORDINATES :: "string \<Rightarrow> coords option"
  parseFloat :: "string \<Rightarrow> real option"
  calculateDistance :: "real \<Rightarrow> real \<Rightarrow> real \<Rightarrow> real \<Rightarrow> number"
  JSON_parse :: "string \<Rightarrow> error + ToolArgs option"
  formatEligibilityForDisplay :: "CTGovStudy \<Rightarrow> string"
  formatTreatmentInfo :: "CTGovStudy \<Rightarrow> string"
  onLog :: "(nat \<Rightarrow> level \<Rightarrow> logMessage \<Rightarrow> error option) option"

section \<open>Geo (src/services/geo.ts)\<close>

definition getZipCoordinates :: "env \<Rightarrow> string \<Rightarrow> coords option" where
  "getZipCoordinates e zipCode = ZIP_COORDINATES e (take 5 (trim zipCode))"

text \<open>A string is truthy when it is there and not empty.\<close>

fun truthy :: "string option \<Rightarrow> bool" where
  "truthy None = False"
| "truthy (Some s) = (s \<noteq> [])"

text \<open>
  The distance from the user to one location, where the source computes one: both
  coordinate strings are non-empty and both parse.
\<close>

definition locationDistance :: "env \<Rightarrow> coords \<Rightarrow> SCRILocation \<Rightarrow> number option" where
  "locationDistance e userCoords loc =
     (if latitude loc \<noteq> [] \<and> longitude loc \<noteq> []
      then (case (parseFloat e (latitude loc), parseFloat e (longitude loc)) of
              (Some locLat, Some locLon) \<Rightarrow>
                 Some (calculateDistance e (lat userCoords) (lon userCoords) locLat locLon)
            | _ \<Rightarrow> None)
      else None)"

text \<open>\<open>zipCode ? getZipCoordinates(zipCode) : null\<close>\<close>

fun zipCoords :: "env \<Rightarrow> string option \<Rightarrow> coords option" where
  "zipCoords e None = None"
| "zipCoords e (Some z) = (if z \<noteq> [] then getZipCoordinates e z else None)"

section \<open>SCRIApiClient.toTrialSummary (src/services/scri-api.ts)\<close>

definition trialLocations :: "SCRITrial \<Rightarrow> SCRILocation list" where
  "trialLocations t = (if officeList t \<noteq> [] then officeList t else siteList t)"

definition toLocationSummary :: "env \<Rightarrow> coords option \<Rightarrow> SCRILocation \<Rightarrow> LocationSummary" where
  "toLocationSummary e userCoords loc =
     \<lparr> name_ls = (if displayName loc \<noteq> [] then displayName loc else siteName1 loc),
       city_ls = trim (city loc),
       state_ls = state loc,
       phone_ls = (if phoneNumber1 loc \<noteq> [] then Some (phoneNumber1 loc) else None),
       distance_ls = (case userCoords of
                        None \<Rightarrow> None
                      | Some uc \<Rightarrow> locationDistance e uc loc) \<rparr>"

text \<open>
  The comparator \<open>(a.distance || Infinity) - (b.distance || Infinity)\<close> orders by the
  distance, with 0 and NaN taken for Infinity (and two Infinities comparing equal): the
  key is (distance is falsy, distance), compared lexicographically.
  \<open>Array.prototype.sort\<close> is stable, as \<open>sort_key\<close> is.
\<close>

definition summaryKey :: "LocationSummary \<Rightarrow> bool \<times> int" where
  "summaryKey l = (case distance_ls l of
                     Some (Number d) \<Rightarrow> (d = 0, d)
                   | _ \<Rightarrow> (True, 0))"

definition toTrialSummary :: "env \<Rightarrow> SCRITrial \<Rightarrow> string option \<Rightarrow> TrialSummary" where
  "toTrialSummary e t userZip =
     (let locations = trialLocations t;
          userCoords = zipCoords e userZip;
          locationsWithDistance = map (toLocationSummary e userCoords) locations;
          sortedLocations =
            sort_key summaryKey (filter (\<lambda>l. distance_ls l \<noteq> None) locationsWithDistance)
      in \<lparr> id_ts = studyId t,
           name_ts = studyName t,
           title_ts = protocolTitle t,
           nctId_ts = nct t,
           phases_ts = phaseNames t,
           cancerTypes_ts = programTypeNames t,
           locationCount = length locations,
           closestLocation =
             (case sortedLocations of
                x # _ \<Rightarrow> Some x
              | [] \<Rightarrow> (case locationsWithDistance of [] \<Rightarrow> None | y # _ \<Rightarrow> Some y)),
           allLocations =
             (if sortedLocations \<noteq> [] then sortedLocations else locationsWithDistance),
           scriUrl_ts = ''https://trials.scri.com/trial/'' @ studyId t,
           ctGovUrl = (if nct t \<noteq> [] then ''https://clinicaltrials.gov/study/'' @ nct t
                       else []) \<rparr>)"

section \<open>The registry client (clinicaltrials-gov.ts)\<close>

text \<open>
  Both functions return their result together with the requests they issued, oldest
  first. \<open>searchCTGov\<close> calls itself once more, without a location, when the registry
  answers 400 to a request that carried a location.
\<close>

definition searchParams :: "string option \<Rightarrow> string option \<Rightarrow> real \<Rightarrow> nat \<Rightarrow> CTGovQuery" where
  "searchParams condition location distance maxResults =
     \<lparr> query_cond = condition,
       pageSize = min maxResults 20,
       filter_geo = (case map_option trim location of
                       None \<Rightarrow> None
                     | Some l \<Rightarrow> if l \<noteq> [] then Some (l, distance) else None) \<rparr>"

function searchCTGov ::
  "env \<Rightarrow> string option \<Rightarrow> string option \<Rightarrow> real \<Rightarrow> nat
     \<Rightarrow> CTGovSearchResult list \<times> CTGovQuery list" where
  "searchCTGov e condition location distance maxResults =
     (let params = searchParams condition location distance maxResults;
          trimmedLocation = map_option trim location
      in case fetchSearch e params of
           FetchRejects err \<Rightarrow> ([], [params])
         | FetchResponse ok st body \<Rightarrow>
             if \<not> ok then
               (if st = 400 \<and> truthy trimmedLocation
                then (case searchCTGov e condition None distance maxResults of
                        (results, requests) \<Rightarrow> (results, params # requests))
                else ([], [params]))
             else (case body of
                     None \<Rightarrow> ([], [params])
                   | Some studies \<Rightarrow> (studies, [params])))"
  by pat_completeness auto
termination
  by (relation "measure (\<lambda>(e, condition, location, distance, maxResults).
                   if truthy (map_option trim location) then 1 else 0)") auto

declare searchCTGov.simps [simp del]

text \<open>
  \<open>fetchCTGovStudy\<close>: an absent id makes \<open>nctId.toUpperCase()\<close> throw inside the
  \<open>try\<close>, which returns null.
\<close>

definition fetchCTGovStudy :: "env \<Rightarrow> string option \<Rightarrow> CTGovStudy option \<times> string list" where
  "fetchCTGovStudy e nctId =
     (case nctId of
        None \<Rightarrow> (None, [])
      | Some n \<Rightarrow>
          (let cleanNctId = trim (toUpperCase n)
           in if \<not> prefix ''NCT'' cleanNctId then (None, [])
              else (let url = ''https://clinicaltrials.gov/api/v2/studies/'' @ cleanNctId
                    in case fetchStudy e cleanNctId of
                         FetchRejects err \<Rightarrow> (None, [url])
                       | FetchResponse ok st body \<Rightarrow>
                           if \<not> ok then (None, [url]) else (body, [url]))))"

section \<open>The agent (TrialAgent)\<close>

record agent =
  trialCache :: trialCache
  previousResponseId :: "string option"
  patientProfile :: "PatientProfile option"

text \<open>
  The closest location of the slim projection: the \<open>for\<close> loop over the locations.
  \<open>minDist\<close> starts at Infinity, which is \<open>None\<close>.
\<close>

record closest =
  minDist :: "int option"
  closestCity_c :: "string option"
  closestState_c :: "string option"
  distance_c :: "int option"

definition closestStep :: "env \<Rightarrow> coords \<Rightarrow> closest \<Rightarrow> SCRILocation \<Rightarrow> closest" where
  "closestStep e userCoords acc loc =
     (case locationDistance e userCoords loc of
        Some (Number d) \<Rightarrow>
          if (case minDist acc of None \<Rightarrow> True | Some m \<Rightarrow> d < m)
          then \<lparr> minDist = Some d,
                 closestCity_c = Some (trim (city loc)),
                 closestState_c = Some (state loc),
                 distance_c = Some d \<rparr>
          else acc
      | _ \<Rightarrow> acc)"

definition toSlimResult :: "env \<Rightarrow> coords option \<Rightarrow> SCRITrial \<Rightarrow> TrialSearchResult" where
  "toSlimResult e userCoords t =
     (let locations = trialLocations t;
          c = (case userCoords of
                 Some uc \<Rightarrow>
                   foldl (closestStep e uc)
                     \<lparr> minDist = None, closestCity_c = None, closestState_c = None,
                       distance_c = None \<rparr> locations
               | None \<Rightarrow>
                   (case locations of
                      [] \<Rightarrow> \<lparr> minDist = None, closestCity_c = None, closestState_c = None,
                              distance_c = None \<rparr>
                    | l # _ \<Rightarrow> \<lparr> minDist = None, closestCity_c = Some (trim (city l)),
                                 closestState_c = Some (state l), distance_c = None \<rparr>))
      in \<lparr> id_sr = studyId t,
           name_sr = studyName t,
           nctId_sr = nct t,
           phases_sr = phaseNames t,
           closestCity = closestCity_c c,
           closestState = closestState_c c,
           distance_sr = distance_c c,
           scriUrl_sr = ''https://trials.scri.com/trial/'' @ studyId t \<rparr>)"

text \<open>
  The comparator \<open>(a.distance || 999) - (b.distance || 999)\<close>: the key of an entry is
  its distance, with 999 for a distance that is absent or 0.
\<close>

definition slimKey :: "TrialSearchResult \<Rightarrow> int" where
  "slimKey t = (case distance_sr t of
                  None \<Rightarrow> 999
                | Some d \<Rightarrow> if d = 0 then 999 else d)"

definition sortSlimResults ::
  "string option \<Rightarrow> TrialSearchResult list \<Rightarrow> TrialSearchResult list" where
  "sortSlimResults zipCode slimResults =
     (if truthy zipCode then
        (let sortedResults =
               take 20 (sort_key slimKey (filter (\<lambda>t. distance_sr t \<noteq> None) slimResults))
         in if length sortedResults < 20
            then sortedResults
                 @ take (20 - length sortedResults)
                     (filter (\<lambda>t. distance_sr t = None) slimResults)
            else sortedResults)
      else take 20 slimResults)"

text \<open>\<open>String(x)\<close> of an optional string inside a template.\<close>

fun orUndefined :: "string option \<Rightarrow> string" where
  "orUndefined None = ''undefined''"
| "orUndefined (Some s) = s"

text \<open>
  \<open>executeTool\<close> returns the payload, or the error it throws, and the agent after the
  call; the lines it logs on the way are \<open>toolLogs\<close> below, and the payload is
  the one of a call in which they return. Reading a field of \<open>null\<close> arguments
  throws. The \<open>message\<close> text of the search payload and the constant \<open>source\<close> and \<open>note\<close> of the backstop payload are left out.
  The \<open>title\<close> of the registry payloads is read from \<open>study.protocolSection\<close>, which
  the record that \<open>fetchCTGovStudy\<close> returns does not have: it is always absent.
\<close>

definition nullArgs :: error where
  "nullArgs = TypeError ''Cannot read properties of null''"

definition executeTool ::
  "env \<Rightarrow> agent \<Rightarrow> string \<Rightarrow> ToolArgs option \<Rightarrow> (error + ToolResult) \<times> agent" where
  "executeTool e ag toolName args =
     (if toolName = ''search_trials'' then
        (case args of
           None \<Rightarrow> (Inl nullArgs, ag)
         | Some a \<Rightarrow>
             (let cancerType = cancerType_arg a; zipCode = zipCode_arg a
              in case searchTrials e (orUndefined cancerType) 1 of
                   Inl err \<Rightarrow> (Inl err, ag)
                 | Inr searchData \<Rightarrow>
                     (let ag' = ag \<lparr> trialCache :=
                                  cacheTrials (trialCache ag) (searchResultsData searchData) zipCode \<rparr>;
                          userCoords = zipCoords e zipCode;
                          slimResults = map (toSlimResult e userCoords) (searchResultsData searchData);
                          sortedResults = sortSlimResults zipCode slimResults
                      in (Inr (SearchTrialsResult cancerType
                                 (case zipCode of
                                    None \<Rightarrow> ''not provided''
                                  | Some z \<Rightarrow> if z \<noteq> [] then z else ''not provided'')
                                 (totalItemCount searchData) (length sortedResults) sortedResults),
                          ag'))))
      else if toolName = ''get_study_details'' then
        (case args of
           None \<Rightarrow> (Inl nullArgs, ag)
         | Some a \<Rightarrow>
             (case studyId_arg a of
                None \<Rightarrow> (Inl (TypeError ''Cannot read properties of undefined (reading toUpperCase)''), ag)
              | Some sid \<Rightarrow>
                  (case getCachedTrial (trialCache ag) sid of
                     Some cached \<Rightarrow>
                       (Inr (StudyDetailsFound ''cache''
                               (toTrialSummary e (trial cached) (userZipCode cached))), ag)
                   | None \<Rightarrow>
                       (case getTrialDetails e sid of
                          Inr t \<Rightarrow> (Inr (StudyDetailsFound ''api'' (toTrialSummary e t None)), ag)
                        | Inl err \<Rightarrow>
                            (Inr (StudyDetailsNotFound
                                    (''Could not find trial with ID '' @ [CHR 0x22] @ sid @ [CHR 0x22]
                                     @ ''. Make sure to use the study ID from search results.'')),
                             ag)))))
      else if toolName = ''get_trial_eligibility'' then
        (case args of
           None \<Rightarrow> (Inl nullArgs, ag)
         | Some a \<Rightarrow>
             (case fst (fetchCTGovStudy e (nctId_arg a)) of
                None \<Rightarrow>
                  (Inr (ErrorPayload (''Could not fetch study '' @ orUndefined (nctId_arg a)
                                      @ '' from ClinicalTrials.gov'')), ag)
              | Some study \<Rightarrow>
                  (Inr (TrialEligibility (nctId_arg a) None (formatEligibilityForDisplay e study)),
                   ag)))
      else if toolName = ''get_trial_treatment_info'' then
        (case args of
           None \<Rightarrow> (Inl nullArgs, ag)
         | Some a \<Rightarrow>
             (case fst (fetchCTGovStudy e (nctId_arg a)) of
                None \<Rightarrow>
                  (Inr (ErrorPayload (''Could not fetch study '' @ orUndefined (nctId_arg a)
                                      @ '' from ClinicalTrials.gov'')), ag)
              | Some study \<Rightarrow>
                  (Inr (TrialTreatmentInfo (nctId_arg a) None (formatTreatmentInfo e study)), ag)))
      else if toolName = ''get_available_cancer_types'' then
        (case getCancerTypeList e of
           Inl err \<Rightarrow> (Inl err, ag)
         | Inr types \<Rightarrow> (Inr (CancerTypeList types), ag))
      else if toolName = ''search_all_trials'' then
        (case args of
           None \<Rightarrow> (Inl nullArgs, ag)
         | Some a \<Rightarrow>
             (let condition = condition_arg a;
                  location = location_arg a;
                  distance = (case distance_arg a of
                                None \<Rightarrow> 100
                              | Some d \<Rightarrow> if d = 0 then 100 else d);
                  results = fst (searchCTGov e condition location distance 10)
              in (Inr (SearchAllTrialsResult condition location distance (length results) results),
                  ag)))
      else (Inl (Error (''Unknown tool: '' @ toolName)), ag))"


section \<open>Logging (TrialAgent.log)\<close>

text \<open>
  \<open>log\<close> writes to the console and then calls \<open>onLog\<close>, the callback the caller gave
  to the constructor, when there is one. The callback may throw, and nothing around a
  call of \<open>log\<close> catches that, except the \<open>try\<close> of the tool loop. \<open>log_call e n level m\<close> is
  the error that the call number \<open>n\<close> of the turn throws, if it throws: the callback
  is given the number of the call, so it may treat equal lines differently.
\<close>

definition log_call :: "env \<Rightarrow> nat \<Rightarrow> level \<Rightarrow> logMessage \<Rightarrow> error option" where
  "log_call e n lv m = (case onLog e of None \<Rightarrow> None | Some f \<Rightarrow> f n lv m)"



section \<open>TrialAgent.chat\<close>




















definition resetConversation :: "agent \<Rightarrow> agent" where
  "resetConversation ag = ag \<lparr> previousResponseId := None \<rparr>"

text \<open>Restoring stores the token and then logs: the error of the log call, and the agent.\<close>

definition restoreConversationState :: "env \<Rightarrow> agent \<Rightarrow> string \<Rightarrow> error option \<times> agent" where
  "restoreConversationState e ag rid =
     (log_call e 0 LogLevel (Restored rid), ag \<lparr> previousResponseId := Some rid \<rparr>)"

section \<open>The invariant of the loop\<close>




section \<open>Example inputs\<close>

definition plainTrial :: "string \<Rightarrow> string \<Rightarrow> SCRITrial" where
  "plainTrial i n =
     \<lparr> studyId = i, studyName = n, protocolTitle = [], nct = [], siteList = [],
       officeList = [], programTypeNames = [], phaseNames = [] \<rparr>"

definition siteAt :: "string \<Rightarrow> string \<Rightarrow> string \<Rightarrow> SCRILocation" where
  "siteAt c la lo =
     \<lparr> siteName1 = c, displayName = [], phoneNumber1 = [], city = c, state = [],
       latitude = la, longitude = lo \<rparr>"

text \<open>An environment in which every service fails, without a logging callback.\<close>

definition offlineEnv :: env where
  "offlineEnv =
     \<lparr> responses_create = (\<lambda>i req. Inl (Error ''offline'')),
       searchTrials = (\<lambda>c p. Inl (Error ''API error: 503'')),
       getTrialDetails = (\<lambda>i. Inl (Error ''API error: 404'')),
       getCancerTypeList = Inl (Error ''API error: 503''),
       fetchStudy = (\<lambda>u. FetchRejects (TypeError ''Failed to fetch'')),
       fetchSearch = (\<lambda>q. FetchRejects (TypeError ''Failed to fetch'')),
       ZIP_COORDINATES = (\<lambda>z. None),
       parseFloat = (\<lambda>s. None),
       calculateDistance = (\<lambda>lat1 lon1 lat2 lon2. NaN),
       JSON_parse = (\<lambda>s. Inl (SyntaxError ''Unexpected end of JSON input'')),
       formatEligibilityForDisplay = (\<lambda>s. []),
       formatTreatmentInfo = (\<lambda>s. []),
       onLog = None \<rparr>"

definition noArgs :: ToolArgs where
  "noArgs = \<lparr> cancerType_arg = None, zipCode_arg = None, studyId_arg = None,
              nctId_arg = None, condition_arg = None, location_arg = None,
              distance_arg = None \<rparr>"

definition freshAgent :: agent where
  "freshAgent = \<lparr> trialCache = [], previousResponseId = None, patientProfile = None \<rparr>"

definition searchData :: "SCRITrial list \<Rightarrow> SCRISearchData" where
  "searchData ts =
     \<lparr> currentPage = 1, itemsPerPage = 10, totalItemCount = int (length ts),
       totalPageCount = 1, searchResultsData = ts \<rparr>"

text \<open>
  Nashville: the ZIP code 37203 of the table in geo.ts, a trial with a site at the
  coordinates of that ZIP code (for which the haversine formula gives 0) and a trial
  with a site in Houston.
\<close>

definition nashvilleEnv :: env where
  "nashvilleEnv = offlineEnv
     \<lparr> searchTrials :=
         (\<lambda>c p. Inr (searchData
            [(plainTrial ''t1'' ''BRE-001'')
               \<lparr> siteList := [siteAt ''Nashville'' ''36.1503'' ''-86.7958''] \<rparr>,
             (plainTrial ''t2'' ''BRE-002'')
               \<lparr> siteList := [siteAt ''Houston'' ''29.7070'' ''-95.3964''] \<rparr>])),
       ZIP_COORDINATES :=
         (\<lambda>z. if z = ''37203'' then Some \<lparr> lat = 361503 / 10000, lon = - 867958 / 10000 \<rparr>
               else None),
       parseFloat :=
         (\<lambda>s. if s = ''36.1503'' then Some (361503 / 10000)
               else if s = ''-86.7958'' then Some (- 867958 / 10000)
               else if s = ''29.7070'' then Some (297070 / 10000)
               else if s = ''-95.3964'' then Some (- 953964 / 10000)
               else None),
       calculateDistance :=
         (\<lambda>lat1 lon1 lat2 lon2. if lat1 = lat2 \<and> lon1 = lon2 then Number 0
                                else Number 666) \<rparr>"






text \<open>An agent whose patient profile has a ZIP code.\<close>

definition profiledAgent :: agent where
  "profiledAgent = freshAgent
     \<lparr> patientProfile := Some \<lparr> zipCode_profile = Some ''37203'',
                                cancerType_profile = Some ''Breast'' \<rparr> \<rparr>"

text \<open>A registry that does not know the study, answering 404.\<close>

definition notFoundEnv :: env where
  "notFoundEnv = offlineEnv \<lparr> fetchStudy := (\<lambda>u. FetchResponse False 404 None) \<rparr>"

text \<open>A registry that answers 400 to every search with a geographic filter.\<close>

definition recruiting :: CTGovSearchResult where
  "recruiting =
     \<lparr> nctId_cr = ''NCT03448926'', briefTitle_cr = ''A study'', phase_cr = None,
       status_cr = ''RECRUITING'', conditions_cr = [], interventions_cr = [],
       locations_cr = [] \<rparr>"

definition noGeoEnv :: env where
  "noGeoEnv = offlineEnv
     \<lparr> fetchSearch := (\<lambda>q. if filter_geo q \<noteq> None then FetchResponse False 400 None
                             else FetchResponse True 200 (Some [recruiting])) \<rparr>"





section \<open>Lemmas about the cache\<close>

lemma str_includes_sublist: "str_includes s q = sublist q s"
  by (induction s) (auto simp: sublist_Cons_right)

lemma cacheTrials_append:
  "cacheTrials c (xs @ ys) z = cacheTrials (cacheTrials c xs z) ys z"
  by (induction xs arbitrary: c) (auto simp: Let_def)

lemma map_of_cacheTrials_other:
  "\<forall>u\<in>set ts. k \<notin> set (cacheKeys u) \<Longrightarrow> map_of (cacheTrials c ts z) k = map_of c k"
  by (induction ts arbitrary: c) (auto simp: Let_def cacheKeys_def update_conv' split: if_splits)

lemma map_of_cacheTrials_last:
  assumes "\<forall>u\<in>set ts2. k \<notin> set (cacheKeys u)" "k \<in> set (cacheKeys t)"
  shows "map_of (cacheTrials c (ts1 @ t # ts2) z) k = Some \<lparr>trial = t, userZipCode = z\<rparr>"
proof -
  have "map_of (cacheTrials c (ts1 @ t # ts2) z) k
        = map_of (cacheTrials (cacheTrials c ts1 z) [t] z) k"
    using assms(1) by (simp add: cacheTrials_append map_of_cacheTrials_other Let_def)
  also have "\<dots> = Some \<lparr>trial = t, userZipCode = z\<rparr>"
    using assms(2) by (auto simp: Let_def cacheKeys_def update_conv' split: if_splits)
  finally show ?thesis .
qed

lemma keys_cacheTrials:
  "fst ` set (cacheTrials c ts z) = fst ` set c \<union> (\<Union>t\<in>set ts. set (cacheKeys t))"
  by (induction ts arbitrary: c) (auto simp: Let_def cacheKeys_def dom_update split: if_splits)

lemma getCachedTrial_exact:
  "map_of c q = Some v \<Longrightarrow> getCachedTrial c q = Some v"
  by (simp add: getCachedTrial_def)

lemma partialMatch_self: "partialMatch q (toUpperCase q, v)"
  by (simp add: partialMatch_def str_includes_sublist)

lemma getCachedTrial_None_iff:
  "(getCachedTrial c q = None) =
     (\<forall>kv\<in>set c. fst kv \<noteq> q \<and> fst kv \<noteq> toUpperCase q
         \<and> \<not> str_includes (fst kv) (toUpperCase q) \<and> \<not> str_includes (toUpperCase q) (fst kv))"
proof -
  have a: "(map_of c k = None) = (\<forall>kv\<in>set c. fst kv \<noteq> k)" for k
    by (auto simp: map_of_eq_None_iff)
  have b: "(List.find (partialMatch q) c = None) = (\<forall>kv\<in>set c. \<not> partialMatch q kv)"
    by (auto simp: find_None_iff)
  have "(getCachedTrial c q = None) =
          (map_of c q = None \<and> map_of c (toUpperCase q) = None
             \<and> List.find (partialMatch q) c = None)"
    by (simp add: getCachedTrial_def split: option.splits)
  then show ?thesis
    unfolding a b partialMatch_def by blast
qed

lemma getCachedTrial_Some:
  assumes "getCachedTrial c q = Some v"
  shows "\<exists>k. (k, v) \<in> set c \<and> (k = q \<or> k = toUpperCase q
           \<or> str_includes k (toUpperCase q) \<or> str_includes (toUpperCase q) k)"
proof (cases "map_of c q")
  case (Some w)
  with assms have "w = v" by (simp add: getCachedTrial_def)
  with Some show ?thesis by (blast dest: map_of_SomeD)
next
  case None
  note n1 = this
  show ?thesis
  proof (cases "map_of c (toUpperCase q)")
    case (Some w)
    with n1 assms have "w = v" by (simp add: getCachedTrial_def)
    with Some show ?thesis by (blast dest: map_of_SomeD)
  next
    case None
    with n1 assms obtain kv where kv: "List.find (partialMatch q) c = Some kv" "snd kv = v"
      by (auto simp: getCachedTrial_def)
    then have "kv \<in> set c" "partialMatch q kv"
      by (auto simp: find_Some_iff)
    with kv(2) show ?thesis
      unfolding partialMatch_def by (cases kv) auto
  qed
qed

lemma substring_found:
  assumes "sublist s n" "toUpperCase n \<in> fst ` set c"
  shows "getCachedTrial c s \<noteq> None"
proof -
  obtain kv where kv: "kv \<in> set c" "fst kv = toUpperCase n"
    using assms(2) by auto
  have "sublist (toUpperCase s) (toUpperCase n)"
    using assms(1) unfolding toUpperCase_def by (rule map_mono_sublist)
  then have "str_includes (fst kv) (toUpperCase s)"
    by (simp add: kv(2) str_includes_sublist)
  with kv(1) show ?thesis
    unfolding getCachedTrial_None_iff by blast
qed

section \<open>Lemmas about the loop\<close>

















section \<open>The continuation token\<close>







section \<open>Tool errors\<close>




section \<open>The bound of the loop\<close>




section \<open>The summary of a trial\<close>

text \<open>
  C10. \<open>toTrialSummary\<close> returns a summary for every trial record: none of its steps
  can throw on a record of the declared type, so the model has no error result. For a
  trial with no office and no site the summary has \<open>locationCount\<close> 0, no locations
  and no closest location; and for every trial the closest location is present exactly
  when the trial has a location.
\<close>

theorem toTrialSummary_closest_location:
  "(officeList t = [] \<and> siteList t = [] \<longrightarrow>
      locationCount (toTrialSummary e t z) = 0 \<and> allLocations (toTrialSummary e t z) = []
      \<and> closestLocation (toTrialSummary e t z) = None)
   \<and> ((closestLocation (toTrialSummary e t z) \<noteq> None) = (officeList t \<noteq> [] \<or> siteList t \<noteq> []))
   \<and> ((closestLocation (toTrialSummary e t z) \<noteq> None) = (0 < locationCount (toTrialSummary e t z)))"
  by (auto simp: toTrialSummary_def Let_def trialLocations_def split: list.splits)

theorem toTrialSummary_closest_location_witness:
  "officeList (plainTrial ''a1'' ''BRE-430'') = [] \<and> siteList (plainTrial ''a1'' ''BRE-430'') = []
   \<and> locationCount (toTrialSummary offlineEnv (plainTrial ''a1'' ''BRE-430'') (Some ''37203'')) = 0
   \<and> allLocations (toTrialSummary offlineEnv (plainTrial ''a1'' ''BRE-430'') (Some ''37203'')) = []
   \<and> closestLocation (toTrialSummary offlineEnv (plainTrial ''a1'' ''BRE-430'') (Some ''37203'')) = None"
  using toTrialSummary_closest_location[of "plainTrial ''a1'' ''BRE-430''" offlineEnv "Some ''37203''"]
  by (simp add: plainTrial_def)

section \<open>The empty study id\<close>




text \<open>Unfolding these evaluates a lookup in a concrete cache.\<close>

lemmas cache_eval = getCachedTrial_def partialMatch_def toUpperCase_def upperChar_def
  plainTrial_def Let_def



section \<open>Cache aliasing\<close>

text \<open>
  C4, amended. Take a record with id I and a non-empty name N that is cached by a
  search, such that no record cached after it by that search is stored under I or under
  the upper-cased N. Then the lookups of I and of the upper-cased N both return this
  record, with the postal code of the search. The lookup of a substring of N never
  misses: it returns the entry of a key that is the query, its upper-casing, or contains
  or is contained in its upper-casing; that entry may belong to another record. A lookup
  tries the exact key first, then the upper-cased key, then scans the cache in insertion
  order for the first key that contains the upper-cased query or is contained in it,
  and it misses exactly when no key matches in any of these ways.
\<close>

theorem cache_aliasing:
  assumes c: "c = cacheTrials c0 (ts1 @ t # ts2) z"
    and later: "\<forall>u\<in>set ts2. studyId t \<notin> set (cacheKeys u)
                   \<and> toUpperCase (studyName t) \<notin> set (cacheKeys u)"
    and named: "studyName t \<noteq> []"
  shows "getCachedTrial c (studyId t) = Some \<lparr> trial = t, userZipCode = z \<rparr>
       \<and> getCachedTrial c (toUpperCase (studyName t)) = Some \<lparr> trial = t, userZipCode = z \<rparr>
       \<and> (\<forall>s. sublist s (studyName t) \<longrightarrow>
             (\<exists>k v. (k, v) \<in> set c \<and> getCachedTrial c s = Some v
                    \<and> (k = s \<or> k = toUpperCase s \<or> str_includes k (toUpperCase s)
                         \<or> str_includes (toUpperCase s) k)))
       \<and> (\<forall>q v. map_of c q = Some v \<longrightarrow> getCachedTrial c q = Some v)
       \<and> (\<forall>q v. map_of c q = None \<and> map_of c (toUpperCase q) = Some v
              \<longrightarrow> getCachedTrial c q = Some v)
       \<and> (\<forall>q. map_of c q = None \<and> map_of c (toUpperCase q) = None
              \<longrightarrow> getCachedTrial c q = map_option snd (List.find (partialMatch q) c))
       \<and> (\<forall>q. (getCachedTrial c q = None) =
              (\<forall>kv\<in>set c. fst kv \<noteq> q \<and> fst kv \<noteq> toUpperCase q
                  \<and> \<not> str_includes (fst kv) (toUpperCase q)
                  \<and> \<not> str_includes (toUpperCase q) (fst kv)))"
proof -
  have k1: "studyId t \<in> set (cacheKeys t)" and k2: "toUpperCase (studyName t) \<in> set (cacheKeys t)"
    using named by (simp_all add: cacheKeys_def)
  have m1: "map_of c (studyId t) = Some \<lparr> trial = t, userZipCode = z \<rparr>"
    unfolding c using later k1 by (intro map_of_cacheTrials_last) auto
  have m2: "map_of c (toUpperCase (studyName t)) = Some \<lparr> trial = t, userZipCode = z \<rparr>"
    unfolding c using later k2 by (intro map_of_cacheTrials_last) auto
  have key: "toUpperCase (studyName t) \<in> fst ` set c"
    using m2 by (metis domI dom_map_of_conv_image_fst)
  have sub: "\<exists>k v. (k, v) \<in> set c \<and> getCachedTrial c s = Some v
                    \<and> (k = s \<or> k = toUpperCase s \<or> str_includes k (toUpperCase s)
                         \<or> str_includes (toUpperCase s) k)"
    if s: "sublist s (studyName t)" for s
  proof -
    from s key have "getCachedTrial c s \<noteq> None" by (rule substring_found)
    then obtain v where v: "getCachedTrial c s = Some v" by auto
    from getCachedTrial_Some[OF v] v show ?thesis by blast
  qed
  show ?thesis
    using m1 m2 sub getCachedTrial_None_iff[of c]
    by (simp add: getCachedTrial_def)
qed

text \<open>
  Three records cached by one search; the second is found by its id, by its
  upper-cased name and by a substring of its name, and an unrelated query misses.
\<close>

theorem cache_aliasing_witness:
  "getCachedTrial
     (cacheTrials [] [plainTrial ''a1'' ''LUN-100'', plainTrial ''b2'' ''Bre-430'',
                      plainTrial ''c3'' ''GI-7''] (Some ''37203'')) ''b2''
     = Some \<lparr> trial = plainTrial ''b2'' ''Bre-430'', userZipCode = Some ''37203'' \<rparr>
   \<and> getCachedTrial
     (cacheTrials [] [plainTrial ''a1'' ''LUN-100'', plainTrial ''b2'' ''Bre-430'',
                      plainTrial ''c3'' ''GI-7''] (Some ''37203'')) ''BRE-430''
     = Some \<lparr> trial = plainTrial ''b2'' ''Bre-430'', userZipCode = Some ''37203'' \<rparr>
   \<and> getCachedTrial
     (cacheTrials [] [plainTrial ''a1'' ''LUN-100'', plainTrial ''b2'' ''Bre-430'',
                      plainTrial ''c3'' ''GI-7''] (Some ''37203'')) ''re-43''
     = Some \<lparr> trial = plainTrial ''b2'' ''Bre-430'', userZipCode = Some ''37203'' \<rparr>
   \<and> getCachedTrial
     (cacheTrials [] [plainTrial ''a1'' ''LUN-100'', plainTrial ''b2'' ''Bre-430'',
                      plainTrial ''c3'' ''GI-7''] (Some ''37203'')) ''XYZ''
     = None"
proof -
  let ?t = "plainTrial ''b2'' ''Bre-430''"
  let ?z = "Some ''37203''"
  let ?c = "cacheTrials [] ([plainTrial ''a1'' ''LUN-100''] @ ?t # [plainTrial ''c3'' ''GI-7'']) ?z"
  let ?c' = "cacheTrials [] [plainTrial ''a1'' ''LUN-100'', ?t, plainTrial ''c3'' ''GI-7''] ?z"
  have later: "\<forall>u\<in>set [plainTrial ''c3'' ''GI-7'']. studyId ?t \<notin> set (cacheKeys u)
                   \<and> toUpperCase (studyName ?t) \<notin> set (cacheKeys u)"
    by (simp add: cacheKeys_def cache_eval)
  have named: "studyName ?t \<noteq> []"
    by (simp add: plainTrial_def)
  have sub: "sublist ''re-43'' (studyName ?t)"
    by (simp add: plainTrial_def str_includes_sublist[symmetric])
  have ceq: "?c = ?c'"
    by simp
  have up: "toUpperCase (studyName ?t) = ''BRE-430''" and i: "studyId ?t = ''b2''"
    by (simp_all add: cache_eval)
  note a = cache_aliasing[OF refl later named, of "[]" "[plainTrial ''a1'' ''LUN-100'']" ?z]
  from a have g1: "getCachedTrial ?c (studyId ?t) = Some \<lparr> trial = ?t, userZipCode = ?z \<rparr>"
    and g2: "getCachedTrial ?c (toUpperCase (studyName ?t)) = Some \<lparr> trial = ?t, userZipCode = ?z \<rparr>"
    by blast+
  from a sub have "getCachedTrial ?c ''re-43'' \<noteq> None"
    by blast
  moreover have "getCachedTrial ?c' ''re-43'' = None
       \<or> getCachedTrial ?c' ''re-43'' = Some \<lparr> trial = ?t, userZipCode = ?z \<rparr>"
    by (simp add: cache_eval)
  ultimately have g3: "getCachedTrial ?c' ''re-43'' = Some \<lparr> trial = ?t, userZipCode = ?z \<rparr>"
    unfolding ceq by argo
  have g4: "getCachedTrial ?c' ''XYZ'' = None"
    by (simp add: cache_eval)
  show ?thesis
    using g1[unfolded ceq i] g2[unfolded ceq up] g3 g4 by (intro conjI)
qed

text \<open>
  C4 as stated fails when two cached records share a key, and for a record without a
  name. With two records of the same name, the id of the first returns the first
  record, while its upper-cased name and a substring of its name return the second.
  And a record with an empty name is found by its id, while its upper-cased name, the
  empty string, returns the first record of the cache.
\<close>

theorem cache_aliasing_counterexample:
  "getCachedTrial (cacheTrials [] [plainTrial ''a1'' ''BRE-430'', plainTrial ''b2'' ''BRE-430''] None)
      (studyId (plainTrial ''a1'' ''BRE-430''))
     = Some \<lparr> trial = plainTrial ''a1'' ''BRE-430'', userZipCode = None \<rparr>
   \<and> getCachedTrial (cacheTrials [] [plainTrial ''a1'' ''BRE-430'', plainTrial ''b2'' ''BRE-430''] None)
      (toUpperCase (studyName (plainTrial ''a1'' ''BRE-430'')))
     = Some \<lparr> trial = plainTrial ''b2'' ''BRE-430'', userZipCode = None \<rparr>
   \<and> str_includes (studyName (plainTrial ''a1'' ''BRE-430'')) ''BRE''
   \<and> getCachedTrial (cacheTrials [] [plainTrial ''a1'' ''BRE-430'', plainTrial ''b2'' ''BRE-430''] None)
      ''BRE''
     = Some \<lparr> trial = plainTrial ''b2'' ''BRE-430'', userZipCode = None \<rparr>
   \<and> plainTrial ''a1'' ''BRE-430'' \<noteq> plainTrial ''b2'' ''BRE-430''
   \<and> getCachedTrial (cacheTrials [] [plainTrial ''a1'' ''BRE-430'', plainTrial ''c3'' []] None)
      (studyId (plainTrial ''c3'' []))
     = Some \<lparr> trial = plainTrial ''c3'' [], userZipCode = None \<rparr>
   \<and> getCachedTrial (cacheTrials [] [plainTrial ''a1'' ''BRE-430'', plainTrial ''c3'' []] None)
      (toUpperCase (studyName (plainTrial ''c3'' [])))
     = Some \<lparr> trial = plainTrial ''a1'' ''BRE-430'', userZipCode = None \<rparr>"
  by (simp add: cache_eval)

section \<open>What a search caches\<close>

lemma map_of_cacheTrials_key:
  assumes "t \<in> set ts" "k \<in> set (cacheKeys t)"
  shows "\<exists>t'\<in>set ts. k \<in> set (cacheKeys t')
           \<and> map_of (cacheTrials c ts z) k = Some \<lparr> trial = t', userZipCode = z \<rparr>"
proof -
  from assms have "\<exists>u\<in>set ts. k \<in> set (cacheKeys u)" by blast
  then obtain ts1 t' ts2 where sp: "ts = ts1 @ t' # ts2" and k: "k \<in> set (cacheKeys t')"
      and last: "\<forall>u\<in>set ts2. k \<notin> set (cacheKeys u)"
    by (rule split_list_last_propE)
  from last k have "map_of (cacheTrials c (ts1 @ t' # ts2) z) k = Some \<lparr> trial = t', userZipCode = z \<rparr>"
    by (rule map_of_cacheTrials_last)
  with sp k show ?thesis by auto
qed

lemma search_trials_cache:
  assumes "searchTrials e (orUndefined (cancerType_arg a)) 1 = Inr sd"
  shows "trialCache (snd (executeTool e ag ''search_trials'' (Some a)))
           = cacheTrials (trialCache ag) (searchResultsData sd) (zipCode_arg a)"
  using assms by (simp add: executeTool_def Let_def)

text \<open>
  C6, amended. When the upstream search succeeds, \<open>search_trials\<close> leaves the cache
  that \<open>cacheTrials\<close> builds from the returned records and the postal code of the tool
  arguments, absent when the arguments have none. Every key of every returned record,
  its id and its upper-cased non-empty name, then maps to a returned record stored under
  that key (the last one, when several share the key) together with exactly that postal
  code. The patient profile plays no part: whatever it is, the cache is the same.
\<close>

theorem search_caches_under_supplied_zip:
  assumes up: "searchTrials e (orUndefined (cancerType_arg a)) 1 = Inr sd"
    and ag': "ag' = snd (executeTool e ag ''search_trials'' (Some a))"
  shows "trialCache ag' = cacheTrials (trialCache ag) (searchResultsData sd) (zipCode_arg a)
       \<and> (\<forall>t\<in>set (searchResultsData sd). \<forall>k\<in>set (cacheKeys t).
             \<exists>t'\<in>set (searchResultsData sd). k \<in> set (cacheKeys t')
                \<and> map_of (trialCache ag') k = Some \<lparr> trial = t', userZipCode = zipCode_arg a \<rparr>)
       \<and> (\<forall>p. trialCache (snd (executeTool e (ag \<lparr> patientProfile := p \<rparr>)
                                   ''search_trials'' (Some a))) = trialCache ag')"
proof -
  have c: "trialCache ag' = cacheTrials (trialCache ag) (searchResultsData sd) (zipCode_arg a)"
    unfolding ag' using up by (rule search_trials_cache)
  have "trialCache (snd (executeTool e (ag \<lparr> patientProfile := p \<rparr>) ''search_trials'' (Some a)))
          = trialCache ag'" for p
    using search_trials_cache[OF up, of "ag \<lparr> patientProfile := p \<rparr>"] c by simp
  with c show ?thesis
    by (auto intro: map_of_cacheTrials_key)
qed

text \<open>Unfolding these evaluates a search against a concrete environment.\<close>

lemmas search_eval = executeTool_def nashvilleEnv_def offlineEnv_def freshAgent_def noArgs_def
  plainTrial_def siteAt_def searchData_def sortSlimResults_def toSlimResult_def closestStep_def
  locationDistance_def slimKey_def getZipCoordinates_def trim_def isSpace_def trialLocations_def
  toUpperCase_def upperChar_def Let_def

text \<open>A search with the postal code 10001 by an agent whose profile says 37203.\<close>

theorem search_caches_under_supplied_zip_witness:
  "map_option userZipCode
     (map_of (trialCache (snd (executeTool nashvilleEnv profiledAgent ''search_trials''
                (Some (noArgs \<lparr> cancerType_arg := Some ''Breast'', zipCode_arg := Some ''10001'' \<rparr>)))))
        ''BRE-002'')
     = Some (Some ''10001'')"
proof -
  let ?a = "noArgs \<lparr> cancerType_arg := Some ''Breast'', zipCode_arg := Some ''10001'' \<rparr>"
  let ?t1 = "(plainTrial ''t1'' ''BRE-001'')
               \<lparr> siteList := [siteAt ''Nashville'' ''36.1503'' ''-86.7958''] \<rparr>"
  let ?t2 = "(plainTrial ''t2'' ''BRE-002'')
               \<lparr> siteList := [siteAt ''Houston'' ''29.7070'' ''-95.3964''] \<rparr>"
  let ?cache = "trialCache (snd (executeTool nashvilleEnv profiledAgent ''search_trials'' (Some ?a)))"
  have up: "searchTrials nashvilleEnv (orUndefined (cancerType_arg ?a)) 1
              = Inr (searchData [?t1, ?t2])"
    by (simp add: nashvilleEnv_def offlineEnv_def noArgs_def)
  have mem: "?t2 \<in> set (searchResultsData (searchData [?t1, ?t2]))"
    by (simp add: searchData_def)
  have k: "''BRE-002'' \<in> set (cacheKeys ?t2)"
    by (simp add: cacheKeys_def plainTrial_def toUpperCase_def upperChar_def)
  have z: "zipCode_arg ?a = Some ''10001''"
    by (simp add: noArgs_def)
  note T = search_caches_under_supplied_zip[OF up refl, of profiledAgent]
  from T[THEN conjunct2, THEN conjunct1, rule_format, OF mem k]
  obtain t' where "map_of ?cache ''BRE-002'' = Some \<lparr> trial = t', userZipCode = zipCode_arg ?a \<rparr>"
    by blast
  then have "map_option userZipCode (map_of ?cache ''BRE-002'') = Some (zipCode_arg ?a)"
    by (simp only: option.map CacheEntry.select_convs)
  then show ?thesis
    unfolding z .
qed

text \<open>
  C6 as stated fails when the arguments have no postal code: the profile of the agent
  has the postal code 37203, and the record is cached without one.
\<close>

theorem search_caches_profile_zip_counterexample:
  "map_option userZipCode
     (map_of (trialCache (snd (executeTool nashvilleEnv profiledAgent ''search_trials''
                (Some (noArgs \<lparr> cancerType_arg := Some ''Breast'' \<rparr>)))))
        ''t1'')
     = Some None
   \<and> map_option zipCode_profile (patientProfile profiledAgent) = Some (Some ''37203'')"
  by (simp add: search_eval profiledAgent_def)

section \<open>The order of the search results\<close>

text \<open>
  What holds of the order: at most 20 entries are returned; with a postal code, the
  entries that have a distance come first, ordered by \<open>slimKey\<close>, which is the distance
  unless the distance is 0; the entries without a distance follow. When no entry is at
  distance 0, the entries that have a distance are ordered by it.
\<close>

lemma sortSlimResults_length: "length (sortSlimResults z xs) \<le> 20"
  by (auto simp: sortSlimResults_def Let_def)

lemma sortSlimResults_order:
  assumes "truthy z"
  shows "\<exists>ds us. sortSlimResults z xs = ds @ us
           \<and> (\<forall>t\<in>set ds. distance_sr t \<noteq> None) \<and> (\<forall>t\<in>set us. distance_sr t = None)
           \<and> sorted (map slimKey ds)"
proof -
  let ?ds = "take 20 (sort_key slimKey (filter (\<lambda>t. distance_sr t \<noteq> None) xs))"
  let ?us = "if length ?ds < 20
             then take (20 - length ?ds) (filter (\<lambda>t. distance_sr t = None) xs) else []"
  have "sortSlimResults z xs = ?ds @ ?us"
    using assms by (simp add: sortSlimResults_def Let_def)
  moreover have "\<forall>t\<in>set ?ds. distance_sr t \<noteq> None"
    by (auto dest!: in_set_takeD)
  moreover have "\<forall>t\<in>set ?us. distance_sr t = None"
    by (auto dest!: in_set_takeD)
  moreover have "sorted (map slimKey ?ds)"
    by (simp add: take_map[symmetric] sorted_wrt_take)
  ultimately show ?thesis by blast
qed

lemma slimKey_distance:
  "distance_sr t = Some d \<Longrightarrow> d \<noteq> 0 \<Longrightarrow> slimKey t = d"
  by (simp add: slimKey_def)

lemma sortSlimResults_by_distance:
  assumes "truthy z" and nz: "\<forall>t\<in>set xs. distance_sr t \<noteq> Some 0"
  shows "\<exists>ds us. sortSlimResults z xs = ds @ us
           \<and> (\<forall>t\<in>set ds. distance_sr t \<noteq> None) \<and> (\<forall>t\<in>set us. distance_sr t = None)
           \<and> sorted (map (\<lambda>t. the (distance_sr t)) ds)"
proof -
  from sortSlimResults_order[OF assms(1), of xs] obtain ds us where
    o: "sortSlimResults z xs = ds @ us" "\<forall>t\<in>set ds. distance_sr t \<noteq> None"
       "\<forall>t\<in>set us. distance_sr t = None" "sorted (map slimKey ds)"
    by blast
  have "set (sortSlimResults z xs) \<subseteq> set xs"
    by (auto simp: sortSlimResults_def Let_def dest!: in_set_takeD)
  with o(1) have sub: "set ds \<subseteq> set xs" by auto
  have "slimKey t = the (distance_sr t)" if "t \<in> set ds" for t
    using that o(2) nz sub by (cases "distance_sr t") (auto simp: slimKey_def)
  then have "map slimKey ds = map (\<lambda>t. the (distance_sr t)) ds"
    by simp
  with o show ?thesis by metis
qed

text \<open>
  C3 fails on the code. The ZIP code 37203 resolves; the first trial has its site at the
  coordinates of that ZIP code, at distance 0, and the second has its site 666 miles
  away. The comparator reads the distance 0 as 999, so the search returns the second
  trial before the first: the distances of the result are 666, 0.
\<close>

theorem search_sorts_distance_zero_last:
  "fst (executeTool nashvilleEnv freshAgent ''search_trials''
          (Some (noArgs \<lparr> cancerType_arg := Some ''Breast'', zipCode_arg := Some ''37203'' \<rparr>)))
     = Inr (SearchTrialsResult (Some ''Breast'') ''37203'' 2 2
              [\<lparr> id_sr = ''t2'', name_sr = ''BRE-002'', nctId_sr = [], phases_sr = [],
                 closestCity = Some ''Houston'', closestState = Some [],
                 distance_sr = Some 666, scriUrl_sr = ''https://trials.scri.com/trial/t2'' \<rparr>,
               \<lparr> id_sr = ''t1'', name_sr = ''BRE-001'', nctId_sr = [], phases_sr = [],
                 closestCity = Some ''Nashville'', closestState = Some [],
                 distance_sr = Some 0, scriUrl_sr = ''https://trials.scri.com/trial/t1'' \<rparr>])"
  by (simp add: search_eval)

section \<open>The registry client\<close>

text \<open>
  C7. When the registry id, upper-cased and trimmed, does not start with NCT,
  \<open>fetchCTGovStudy\<close> returns null and issues no request. When the registry answers the
  request for the study with a response that is not ok (not found),
  \<open>get_trial_eligibility\<close> returns the error payload; and whatever the registry does,
  \<open>get_trial_eligibility\<close> returns a payload and does not throw.
\<close>

theorem eligibility_lookup_failures:
  "(\<not> prefix ''NCT'' (trim (toUpperCase n)) \<longrightarrow> fetchCTGovStudy e (Some n) = (None, []))
   \<and> (nctId_arg a = Some n \<and> fetchStudy e (trim (toUpperCase n)) = FetchResponse False st body \<longrightarrow>
        executeTool e ag ''get_trial_eligibility'' (Some a)
          = (Inr (ErrorPayload (''Could not fetch study '' @ n @ '' from ClinicalTrials.gov'')), ag))
   \<and> (\<exists>p. executeTool e ag ''get_trial_eligibility'' (Some a) = (Inr p, ag))"
  by (auto simp: executeTool_def fetchCTGovStudy_def Let_def split: option.splits)

text \<open>Unfolding these evaluates a registry lookup against a concrete environment.\<close>

lemmas registry_eval = fetchCTGovStudy_def executeTool_def toUpperCase_def upperChar_def trim_def
  isSpace_def offlineEnv_def noArgs_def Let_def

text \<open>An id that is not a registry id, and a registry that answers 404.\<close>

theorem eligibility_lookup_failures_witness:
  "\<not> prefix ''NCT'' (trim (toUpperCase ''invalid''))
   \<and> fetchCTGovStudy offlineEnv (Some ''invalid'') = (None, [])
   \<and> fetchStudy notFoundEnv (trim (toUpperCase ''NCT00000000'')) = FetchResponse False 404 None
   \<and> executeTool notFoundEnv freshAgent ''get_trial_eligibility''
        (Some (noArgs \<lparr> nctId_arg := Some ''NCT00000000'' \<rparr>))
       = (Inr (ErrorPayload ''Could not fetch study NCT00000000 from ClinicalTrials.gov''),
          freshAgent)"
proof -
  have a: "\<not> prefix ''NCT'' (trim (toUpperCase ''invalid''))"
    by (simp add: registry_eval)
  have b: "nctId_arg (noArgs \<lparr> nctId_arg := Some ''NCT00000000'' \<rparr>) = Some ''NCT00000000''
           \<and> fetchStudy notFoundEnv (trim (toUpperCase ''NCT00000000'')) = FetchResponse False 404 None"
    by (simp add: notFoundEnv_def registry_eval)
  from a eligibility_lookup_failures[of "''invalid''" offlineEnv]
  have "fetchCTGovStudy offlineEnv (Some ''invalid'') = (None, [])"
    by blast
  moreover from b eligibility_lookup_failures[of "''NCT00000000''" notFoundEnv
                  "noArgs \<lparr> nctId_arg := Some ''NCT00000000'' \<rparr>" 404 None freshAgent]
  have "executeTool notFoundEnv freshAgent ''get_trial_eligibility''
        (Some (noArgs \<lparr> nctId_arg := Some ''NCT00000000'' \<rparr>))
       = (Inr (ErrorPayload (''Could not fetch study '' @ ''NCT00000000'' @ '' from ClinicalTrials.gov'')),
          freshAgent)"
    by blast
  ultimately show ?thesis
    using a b by simp
qed

lemma searchCTGov_plain:
  "searchCTGov e c None d m =
     (case fetchSearch e (searchParams c None d m) of
        FetchResponse True st (Some studies) \<Rightarrow> studies
      | _ \<Rightarrow> [], [searchParams c None d m])"
  by (subst searchCTGov.simps) (simp add: Let_def split: fetch_result.splits option.splits)

text \<open>
  C8. \<open>searchCTGov\<close> issues at most two requests. When the request carries a geographic
  filter (the trimmed location is not empty) and the registry answers 400, it issues
  exactly one more request, the same without the filter, and returns what that request
  gives. On every other failure (the fetch rejects, another status, a 400 without a
  location, a body that cannot be read) it returns the empty list; it has no error
  result.
\<close>

theorem backstop_search_retries_once:
  "length (snd (searchCTGov e c l d m)) \<le> 2
   \<and> (truthy (map_option trim l)
        \<and> fetchSearch e (searchParams c l d m) = FetchResponse False 400 body \<longrightarrow>
          snd (searchCTGov e c l d m) = [searchParams c l d m, searchParams c None d m]
          \<and> filter_geo (searchParams c l d m) \<noteq> None
          \<and> filter_geo (searchParams c None d m) = None
          \<and> fst (searchCTGov e c l d m) = fst (searchCTGov e c None d m))
   \<and> (fetchSearch e (searchParams c l d m) = FetchRejects err \<longrightarrow>
          searchCTGov e c l d m = ([], [searchParams c l d m]))
   \<and> (fetchSearch e (searchParams c l d m) = FetchResponse False st body
        \<and> \<not> (st = 400 \<and> truthy (map_option trim l)) \<longrightarrow>
          searchCTGov e c l d m = ([], [searchParams c l d m]))
   \<and> (fetchSearch e (searchParams c l d m) = FetchResponse True st None \<longrightarrow>
          searchCTGov e c l d m = ([], [searchParams c l d m]))"
proof -
  have one: "snd (searchCTGov e c None d m) = [searchParams c None d m]"
    by (simp add: searchCTGov_plain)
  have geo: "filter_geo (searchParams c l d m) \<noteq> None" if "truthy (map_option trim l)"
    using that by (cases l) (auto simp: searchParams_def)
  have nogeo: "filter_geo (searchParams c None d m) = None"
    by (simp add: searchParams_def)
  have two: "length (snd (searchCTGov e c l d m)) \<le> 2"
  proof -
    obtain results requests where r: "searchCTGov e c None d m = (results, requests)"
      by (cases "searchCTGov e c None d m")
    with one have "length requests = 1" by simp
    with r show ?thesis
      by (subst searchCTGov.simps)
         (simp add: Let_def split: fetch_result.splits option.splits)
  qed
  have retry: "snd (searchCTGov e c l d m) = [searchParams c l d m, searchParams c None d m]
          \<and> fst (searchCTGov e c l d m) = fst (searchCTGov e c None d m)"
    if t: "truthy (map_option trim l)"
      and f: "fetchSearch e (searchParams c l d m) = FetchResponse False 400 body"
  proof -
    obtain results requests where r: "searchCTGov e c None d m = (results, requests)"
      by (cases "searchCTGov e c None d m")
    with one have q: "requests = [searchParams c None d m]" by simp
    have "searchCTGov e c l d m = (results, searchParams c l d m # requests)"
      using t f r by (subst searchCTGov.simps) (simp add: Let_def)
    with r q show ?thesis by simp
  qed
  have fail: "searchCTGov e c l d m = ([], [searchParams c l d m])"
    if "fetchSearch e (searchParams c l d m) = FetchRejects err
        \<or> (fetchSearch e (searchParams c l d m) = FetchResponse False st body
            \<and> \<not> (st = 400 \<and> truthy (map_option trim l)))
        \<or> fetchSearch e (searchParams c l d m) = FetchResponse True st None"
    using that by (subst searchCTGov.simps) (auto simp: Let_def)
  from two retry geo nogeo fail show ?thesis
    by blast
qed

text \<open>
  A registry that rejects the geographic filter answers the retry; and a fetch that
  rejects gives the empty list after one request.
\<close>

theorem backstop_search_retries_once_witness:
  "searchCTGov noGeoEnv (Some ''breast cancer'') (Some '' Nashville, TN '') 100 10
     = ([recruiting],
        [searchParams (Some ''breast cancer'') (Some '' Nashville, TN '') 100 10,
         searchParams (Some ''breast cancer'') None 100 10])
   \<and> filter_geo (searchParams (Some ''breast cancer'') (Some '' Nashville, TN '') 100 10)
       = Some (''Nashville, TN'', 100)
   \<and> searchCTGov offlineEnv (Some ''breast cancer'') None 100 10
     = ([], [searchParams (Some ''breast cancer'') None 100 10])"
proof -
  let ?c = "Some ''breast cancer''"
  let ?l = "Some '' Nashville, TN ''"
  have t: "truthy (map_option trim ?l)"
    by (simp add: trim_def isSpace_def)
  have g: "filter_geo (searchParams ?c ?l 100 10) = Some (''Nashville, TN'', 100)"
    by (simp add: searchParams_def trim_def isSpace_def)
  have f: "fetchSearch noGeoEnv (searchParams ?c ?l 100 10) = FetchResponse False 400 None"
    by (simp add: noGeoEnv_def offlineEnv_def g)
  have p: "fst (searchCTGov noGeoEnv ?c None 100 10) = [recruiting]"
    by (simp add: searchCTGov_plain noGeoEnv_def offlineEnv_def searchParams_def)
  have r: "fetchSearch offlineEnv (searchParams ?c None 100 10)
             = FetchRejects (TypeError ''Failed to fetch'')"
    by (simp add: offlineEnv_def)
  from t f backstop_search_retries_once[of noGeoEnv ?c ?l 100 10 None]
  have "snd (searchCTGov noGeoEnv ?c ?l 100 10)
           = [searchParams ?c ?l 100 10, searchParams ?c None 100 10]
        \<and> fst (searchCTGov noGeoEnv ?c ?l 100 10) = fst (searchCTGov noGeoEnv ?c None 100 10)"
    by blast
  with p have a: "searchCTGov noGeoEnv ?c ?l 100 10
           = ([recruiting], [searchParams ?c ?l 100 10, searchParams ?c None 100 10])"
    by (simp add: prod_eq_iff)
  from r backstop_search_retries_once[of offlineEnv ?c None 100 10 _ "TypeError ''Failed to fetch''"]
  have b: "searchCTGov offlineEnv ?c None 100 10 = ([], [searchParams ?c None 100 10])"
    by blast
  from a g b show ?thesis by (intro conjI)
qed

end
